theory Spec2Isabelle
  imports Main
begin

section \<open>The Markdown serializer of slate-md-serializer (src/renderer.js)\<close>

text \<open>
  The theory embeds the serializing half of \<^verbatim>\<open>src/renderer.js\<close>: the four built-in
  rules, the rule dispatch of \<^verbatim>\<open>serializeNode\<close>, \<^verbatim>\<open>serializeLeaves\<close> and
  \<^verbatim>\<open>serializeString\<close>, and \<^verbatim>\<open>serialize\<close>, for a serializer built with no extra
  rules (\<^verbatim>\<open>new Markdown()\<close>).

  Conventions.
  \<^item> A JavaScript string is a \<^typ>\<open>string\<close>; a \<^typ>\<open>char\<close> stands for one UTF-16 code
    unit below 256, so the line terminators are LF and CR and the white space of
    \<^verbatim>\<open>\s\<close> is TAB, LF, VT, FF, CR, SPACE and NBSP.
  \<^item> \<^verbatim>\<open>undefined\<close> where a string is expected is \<open>None\<close> of \<^typ>\<open>string option\<close>.
  \<^item> The module variable \<^verbatim>\<open>tableHeader\<close> is threaded through every function as
    an explicit state; it outlives a call of \<^verbatim>\<open>serialize\<close>, as the module variable does.
  \<^item> A thrown exception is \<open>Inl\<close> of the result; the model does not say what the
    table header holds after one.
  \<^item> The values of a node's data are strings, booleans, \<^verbatim>\<open>null\<close> or missing, which is
    what the fields the rules read hold.
\<close>

subsection \<open>JavaScript values read from a node's data\<close>

datatype jsval = JUndefined | JNull | JBool bool | JStr string

datatype error = TypeError | EncodeError

text \<open>Truthiness, as \<^verbatim>\<open>if (v)\<close>, \<^verbatim>\<open>v || d\<close> and \<^verbatim>\<open>v ? a : b\<close> test it.\<close>

fun truthy :: "jsval \<Rightarrow> bool" where
  "truthy JUndefined = False"
| "truthy JNull = False"
| "truthy (JBool b) = b"
| "truthy (JStr s) = (s \<noteq> [])"

text \<open>The string a template literal \<^verbatim>\<open>${v}\<close> puts in for a value.\<close>

fun toStr :: "jsval \<Rightarrow> string" where
  "toStr JUndefined = ''undefined''"
| "toStr JNull = ''null''"
| "toStr (JBool b) = (if b then ''true'' else ''false'')"
| "toStr (JStr s) = s"

text \<open>\<^verbatim>\<open>${children}\<close> for rendered children, which are a string or \<^verbatim>\<open>undefined\<close>.\<close>

fun tpl :: "string option \<Rightarrow> string" where
  "tpl None = ''undefined''"
| "tpl (Some s) = s"

text \<open>\<^verbatim>\<open>v || ""\<close>\<close>

definition orEmpty :: "jsval \<Rightarrow> jsval" where
  "orEmpty v = (if truthy v then v else JStr [])"

subsection \<open>String operations\<close>

definition isSpace :: "char \<Rightarrow> bool" where
  "isSpace c \<longleftrightarrow>
     c = CHR 0x09 \<or> c = CHR 0x0A \<or> c = CHR 0x0B \<or> c = CHR 0x0C \<or> c = CHR 0x0D \<or>
     c = CHR 0x20 \<or> c = CHR 0xA0"

definition lineTerminator :: "char \<Rightarrow> bool" where
  "lineTerminator c \<longleftrightarrow> c = CHR 0x0A \<or> c = CHR 0x0D"

text \<open>\<^verbatim>\<open>s.replace(/c/g, r)\<close> for a pattern that is one literal character.\<close>

definition replaceChar :: "char \<Rightarrow> string \<Rightarrow> string \<Rightarrow> string" where
  "replaceChar c r s = concat (map (\<lambda>x. if x = c then r else [x]) s)"

text \<open>\<^verbatim>\<open>children.replace(/\n/g, "  \n")\<close>; on \<^verbatim>\<open>undefined\<close> the method call throws.\<close>

fun formatSoftBreak :: "string option \<Rightarrow> error + string" where
  "formatSoftBreak None = Inl TypeError"
| "formatSoftBreak (Some children) = Inr (replaceChar (CHR 0x0A) ''  \<newline>'' children)"

text \<open>
  \<^verbatim>\<open>s.replace(/^/gm, "   ")\<close>: with the flags g and m the empty pattern matches at
  position 0 and after every line terminator, the end of the string included.
\<close>

fun indentAfter :: "string \<Rightarrow> string" where
  "indentAfter [] = []"
| "indentAfter (c # cs) =
     (if lineTerminator c then c # ''   '' @ indentAfter cs else c # indentAfter cs)"

definition indentLines :: "string \<Rightarrow> string" where
  "indentLines s = ''   '' @ indentAfter s"

text \<open>\<^verbatim>\<open>output.replace(/^\s+/g, "")\<close>: without the flag m the anchor is position 0 only.\<close>

definition trimStart :: "string \<Rightarrow> string" where
  "trimStart s = dropWhile isSpace s"

text \<open>\<^verbatim>\<open>String.prototype.trim\<close>\<close>

definition trim :: "string \<Rightarrow> string" where
  "trim s = rev (dropWhile isSpace (rev (dropWhile isSpace s)))"

text \<open>
  \<^verbatim>\<open>desc.replace(/\[(.*?)\]/g, "")\<close>: from each opening bracket, the shortest run of
  characters other than line terminators up to a closing bracket is removed with its
  brackets; an opening bracket with no closing bracket on its line stays.
\<close>

fun closeBracket :: "string \<Rightarrow> string option" where
  "closeBracket [] = None"
| "closeBracket (c # cs) =
     (if c = CHR '']'' then Some cs
      else if lineTerminator c then None
      else closeBracket cs)"

lemma closeBracket_shorter: "closeBracket cs = Some r \<Longrightarrow> length r < length cs"
  by (induction cs) (auto split: if_splits)

function stripBrackets :: "string \<Rightarrow> string" where
  "stripBrackets [] = []"
| "stripBrackets (c # cs) =
     (if c = CHR ''[''
      then (case closeBracket cs of
              Some r \<Rightarrow> stripBrackets r
            | None \<Rightarrow> c # stripBrackets cs)
      else c # stripBrackets cs)"
  by pat_completeness auto
termination
  by (relation "measure length") (auto dest: closeBracket_shorter)

text \<open>
  The text escaping of the first rule, as the source chains it: six global replacements,
  the backslash first.
\<close>

definition escape :: "string \<Rightarrow> string" where
  "escape s =
     replaceChar (CHR ''%'') [CHR 0x5C, CHR ''%'']
       (replaceChar (CHR '']'') [CHR 0x5C, CHR '']'']
         (replaceChar (CHR ''['') [CHR 0x5C, CHR ''['']
           (replaceChar (CHR ''!'') [CHR 0x5C, CHR ''!'']
             (replaceChar (CHR ''@'') [CHR 0x5C, CHR ''@'']
               (replaceChar (CHR 0x5C) [CHR 0x5C, CHR 0x5C] s)))))"

subsection \<open>The document tree\<close>

text \<open>
  The tree is Slate's and is only read here. A node's \<^verbatim>\<open>data\<close> is a finite map from
  field names to values; \<^verbatim>\<open>obj.getIn(["data", k])\<close> is \<^verbatim>\<open>undefined\<close> for a missing
  field. A text node is given by the leaves that \<^verbatim>\<open>node.getLeaves()\<close> returns for it,
  and a leaf's marks are listed in the order its mark set iterates them.
\<close>

type_synonym data = "string \<rightharpoonup> jsval"

definition getIn :: "data \<Rightarrow> string \<Rightarrow> jsval" where
  "getIn d k = (case d k of None \<Rightarrow> JUndefined | Some v \<Rightarrow> v)"

datatype mark = Mark (mark_type: string)

datatype leaf = Leaf (leaf_text: string) (leaf_marks: "mark list")

datatype node =
    Block string data "node list"
  | Inline string data "node list"
  | Text "leaf list"

datatype document = Document (doc_nodes: "node list")

text \<open>
  Modelled from the spec: \<^verbatim>\<open>document.getParent(obj.key)\<close> is Slate's and not in the
  source; the spec gives it as the lookup of a node's parent by identity. The walk over
  the tree hands each block the parent it is a child of: the document itself, or a node,
  of which the rules read the \<^verbatim>\<open>type\<close> only.
\<close>

datatype parent = DocumentParent | NodeParent string

fun parentType :: "parent \<Rightarrow> string option" where
  "parentType DocumentParent = None"
| "parentType (NodeParent t) = Some t"

text \<open>
  What a rule's \<^verbatim>\<open>serialize(obj, children, document)\<close> inspects: the private record
  \<^verbatim>\<open>String\<close> of kind "string", a block with its parent, an inline, or a mark.
\<close>

datatype obj =
    StringRec string
  | BlockObj string data parent
  | InlineObj string data
  | MarkObj string

text \<open>
  The collaborator \<^verbatim>\<open>encode\<close> of \<^verbatim>\<open>./urls\<close> is not in the source: it is a parameter
  of the model, free to throw.
\<close>

type_synonym encoder = "jsval \<Rightarrow> error + string"

text \<open>
  A rule takes the object, the rendered children and the table header, and returns what
  \<^verbatim>\<open>serialize\<close> returns (\<open>None\<close> for \<^verbatim>\<open>undefined\<close>) with the table header it leaves.
\<close>

type_synonym rule = "obj \<Rightarrow> string option \<Rightarrow> string \<Rightarrow> error + (string option \<times> string)"

subsection \<open>The rules\<close>

fun rule_string :: rule where
  "rule_string (StringRec t) children tableHeader = Inr (Some (escape (tpl children)), tableHeader)"
| "rule_string _ children tableHeader = Inr (None, tableHeader)"

definition alignMarker :: "jsval \<Rightarrow> string" where
  "alignMarker a =
     (if a = JStr ''left'' then ''|:--- ''
      else if a = JStr ''center'' then ''|:---:''
      else if a = JStr ''right'' then ''| ---:''
      else ''| --- '')"

text \<open>\<^verbatim>\<open>formatLinkBar(img, url, title, desc, domain)\<close>\<close>

definition formatLinkBar :: "string \<Rightarrow> string \<Rightarrow> jsval \<Rightarrow> jsval \<Rightarrow> jsval \<Rightarrow> error + string" where
  "formatLinkBar img url title desc domain =
     (case desc of
        JStr d \<Rightarrow>
          Inr (''%%%\<newline>'' @ (if img \<noteq> [] then url @ ''\<newline>'' @ img else url) @ ''\<newline>'' @
               toStr title @ ''\<newline>'' @ stripBrackets d @ ''\<newline>'' @ toStr domain @
               ''\<newline>%%%\<newline>'')
      | _ \<Rightarrow> Inl TypeError)"

definition listItem :: "string option \<Rightarrow> data \<Rightarrow> string \<Rightarrow> error + string" where
  "listItem parent_type d soft =
     (if parent_type = Some ''ordered-list'' then Inr (''1. '' @ soft @ ''\<newline>'')
      else if parent_type = Some ''todo-list''
      then (let checked = getIn d ''checked'';
                box = (if truthy checked then ''[x]'' else ''[ ]'')
            in Inr (box @ '' '' @ soft @ ''\<newline>''))
      else Inr (''* '' @ soft @ ''\<newline>''))"

fun rule_block :: "encoder \<Rightarrow> rule" where
  "rule_block encode (BlockObj t d parent) children tableHeader =
    (if t = ''table'' then Inr (children, [])
     else if t = ''table-head'' then
       Inr (Some (''| '' @ tpl children @ '' ''), tableHeader @ alignMarker (getIn d ''align''))
     else if t = ''table-row'' then
       (if tableHeader \<noteq> []
        then Inr (Some (tpl children @ ''|\<newline>'' @ (tableHeader @ ''|\<newline>'')), [])
        else Inr (Some (tpl children @ ''|\<newline>'' @ []), tableHeader))
     else if t = ''table-cell'' then Inr (Some (''| '' @ tpl children @ '' ''), tableHeader)
     else if t = ''paragraph'' then
       (if parentType parent = Some ''list-item''
        then (case formatSoftBreak children of
                Inl e \<Rightarrow> Inl e
              | Inr soft \<Rightarrow> Inr (Some soft, tableHeader))
        else (case formatSoftBreak children of
                Inl e \<Rightarrow> Inl e
              | Inr soft \<Rightarrow> Inr (Some (''\<newline>'' @ soft @ ''\<newline>''), tableHeader)))
     else if t = ''code'' then
       Inr (Some ([CHR 0x60, CHR 0x60, CHR 0x60] @ ''\<newline>'' @ tpl children @ ''\<newline>'' @
                  [CHR 0x60, CHR 0x60, CHR 0x60] @ ''\<newline>''), tableHeader)
     else if t = ''block-quote'' then Inr (Some (''> '' @ tpl children @ ''\<newline>''), tableHeader)
     else if t = ''todo-list'' \<or> t = ''bulleted-list'' \<or> t = ''ordered-list'' then
       (if parent = DocumentParent then Inr (Some (''\<newline>'' @ tpl children), tableHeader)
        else (case children of
                None \<Rightarrow> Inl TypeError
              | Some c \<Rightarrow> Inr (Some (''\<newline>'' @ indentLines c), tableHeader)))
     else if t = ''list-item'' then
       (case formatSoftBreak children of
          Inl e \<Rightarrow> Inl e
        | Inr soft \<Rightarrow>
            (case listItem (parentType parent) d soft of
               Inl e \<Rightarrow> Inl e
             | Inr s \<Rightarrow> Inr (Some s, tableHeader)))
     else if t = ''heading1'' then
       (case formatSoftBreak children of
          Inl e \<Rightarrow> Inl e
        | Inr soft \<Rightarrow> Inr (Some (''# '' @ soft), tableHeader))
     else if t = ''heading2'' then Inr (Some (''## '' @ tpl children), tableHeader)
     else if t = ''heading3'' then Inr (Some (''### '' @ tpl children), tableHeader)
     else if t = ''heading4'' then Inr (Some (''#### '' @ tpl children), tableHeader)
     else if t = ''heading5'' then Inr (Some (''##### '' @ tpl children), tableHeader)
     else if t = ''heading6'' then Inr (Some (''###### '' @ tpl children), tableHeader)
     else if t = ''horizontal-rule'' then Inr (Some ''---\<newline>'', tableHeader)
     else if t = ''image'' then
       (let alt = getIn d ''alt'' in
        case encode (orEmpty (getIn d ''src'')) of
          Inl e \<Rightarrow> Inl e
        | Inr src \<Rightarrow> Inr (Some (''!['' @ toStr alt @ '']('' @ src @ '')\<newline>''), tableHeader))
     else if t = ''linkbar'' then
       (case encode (orEmpty (getIn d ''image'')) of
          Inl e \<Rightarrow> Inl e
        | Inr img \<Rightarrow>
            (case encode (orEmpty (getIn d ''url'')) of
               Inl e \<Rightarrow> Inl e
             | Inr url \<Rightarrow>
                 (case formatLinkBar img url (getIn d ''title'') (getIn d ''description'')
                         (getIn d ''domain'') of
                    Inl e \<Rightarrow> Inl e
                  | Inr s \<Rightarrow> Inr (Some s, tableHeader))))
     else Inr (None, tableHeader))"
| "rule_block encode _ children tableHeader = Inr (None, tableHeader)"

fun rule_inline :: "encoder \<Rightarrow> rule" where
  "rule_inline encode (InlineObj t d) children tableHeader =
    (if t = ''link'' then
       (case encode (orEmpty (getIn d ''href'')) of
          Inl e \<Rightarrow> Inl e
        | Inr href \<Rightarrow>
            (case children of
               None \<Rightarrow> Inl TypeError
             | Some c \<Rightarrow> Inr (Some (''['' @ trim c @ '']('' @ href @ '')''), tableHeader)))
     else if t = ''code-line'' then
       Inr (Some ([CHR 0x60] @ tpl children @ [CHR 0x60]), tableHeader)
     else if t = ''mention'' then
       (let username = orEmpty (getIn d ''username'');
            anon = orEmpty (getIn d ''anonymous'')
        in if truthy username
           then Inr (Some ((if truthy anon then ''!'' else ''@'') @ toStr username @ '' ''),
                     tableHeader)
           else Inr (Some (toStr username), tableHeader))
     else Inr (None, tableHeader))"
| "rule_inline encode _ children tableHeader = Inr (None, tableHeader)"

fun rule_mark :: rule where
  "rule_mark (MarkObj t) children tableHeader =
    (if t = ''bold'' then Inr (Some (''**'' @ tpl children @ ''**''), tableHeader)
     else if t = ''italic'' then Inr (Some (''*'' @ tpl children @ ''*''), tableHeader)
     else if t = ''code'' then Inr (Some ([CHR 0x60] @ tpl children @ [CHR 0x60]), tableHeader)
     else if t = ''inserted'' then Inr (Some (''__'' @ tpl children @ ''__''), tableHeader)
     else if t = ''deleted'' then Inr (Some (''~~'' @ tpl children @ ''~~''), tableHeader)
     else Inr (None, tableHeader))"
| "rule_mark _ children tableHeader = Inr (None, tableHeader)"

text \<open>The list \<^verbatim>\<open>RULES\<close>, which is all of \<^verbatim>\<open>this.rules\<close> when no rule is added.\<close>

definition RULES :: "encoder \<Rightarrow> rule list" where
  "RULES encode = [rule_string, rule_block encode, rule_inline encode, rule_mark]"

subsection \<open>Dispatch and the walk over the tree\<close>

text \<open>\<^verbatim>\<open>if (ret)\<close> for what a rule returned: \<^verbatim>\<open>undefined\<close> and the empty string fail it.\<close>

fun truthyRet :: "string option \<Rightarrow> bool" where
  "truthyRet None = False"
| "truthyRet (Some s) = (s \<noteq> [])"

text \<open>
  The loop \<^verbatim>\<open>for (const rule of this.rules)\<close> of the three serializing methods: the
  first truthy result is returned, and the function returns \<^verbatim>\<open>undefined\<close> when the
  rules are used up. A rule that returned a falsy value has still run.
\<close>

fun applyRules :: "rule list \<Rightarrow> obj \<Rightarrow> string option \<Rightarrow> string \<Rightarrow> error + (string option \<times> string)" where
  "applyRules [] obj children tableHeader = Inr (None, tableHeader)"
| "applyRules (r # rs) obj children tableHeader =
     (case r obj children tableHeader of
        Inl e \<Rightarrow> Inl e
      | Inr (ret, tableHeader') \<Rightarrow>
          if truthyRet ret then Inr (ret, tableHeader')
          else applyRules rs obj children tableHeader')"

definition serializeString :: "encoder \<Rightarrow> string \<Rightarrow> string \<Rightarrow> error + (string option \<times> string)" where
  "serializeString encode t tableHeader = applyRules (RULES encode) (StringRec t) (Some t) tableHeader"

text \<open>\<^verbatim>\<open>leaves.marks.reduce((children, mark) => ..., text)\<close>\<close>

fun reduceMarks :: "encoder \<Rightarrow> mark list \<Rightarrow> string option \<Rightarrow> string \<Rightarrow> error + (string option \<times> string)" where
  "reduceMarks encode [] children tableHeader = Inr (children, tableHeader)"
| "reduceMarks encode (m # ms) children tableHeader =
     (case applyRules (RULES encode) (MarkObj (mark_type m)) children tableHeader of
        Inl e \<Rightarrow> Inl e
      | Inr (ret, tableHeader') \<Rightarrow> reduceMarks encode ms ret tableHeader')"

definition serializeLeaves :: "encoder \<Rightarrow> leaf \<Rightarrow> string \<Rightarrow> error + (string option \<times> string)" where
  "serializeLeaves encode l tableHeader =
     (case serializeString encode (leaf_text l) tableHeader of
        Inl e \<Rightarrow> Inl e
      | Inr (t, tableHeader') \<Rightarrow> reduceMarks encode (leaf_marks l) t tableHeader')"

text \<open>\<^verbatim>\<open>leaves.map(this.serializeLeaves)\<close>, from the first leaf to the last.\<close>

fun mapLeaves :: "encoder \<Rightarrow> leaf list \<Rightarrow> string \<Rightarrow> error + (string option list \<times> string)" where
  "mapLeaves encode [] tableHeader = Inr ([], tableHeader)"
| "mapLeaves encode (l # ls) tableHeader =
     (case serializeLeaves encode l tableHeader of
        Inl e \<Rightarrow> Inl e
      | Inr (r, tableHeader') \<Rightarrow>
          (case mapLeaves encode ls tableHeader' of
             Inl e \<Rightarrow> Inl e
           | Inr (rs, tableHeader'') \<Rightarrow> Inr (r # rs, tableHeader'')))"

text \<open>
  What \<^verbatim>\<open>serializeNode\<close> returns: for a text node the list of its rendered leaves, for
  any other node a string or \<^verbatim>\<open>undefined\<close>.
\<close>

datatype rendered = RLeaves "string option list" | RString "string option"

text \<open>An element of a list under \<^verbatim>\<open>join\<close>: \<^verbatim>\<open>undefined\<close> counts as the empty string.\<close>

fun joined :: "string option \<Rightarrow> string" where
  "joined None = []"
| "joined (Some s) = s"

text \<open>\<^verbatim>\<open>children.flatten()\<close>, then \<^verbatim>\<open>join("")\<close>.\<close>

fun flatten :: "rendered list \<Rightarrow> string option list" where
  "flatten [] = []"
| "flatten (RLeaves xs # rs) = xs @ flatten rs"
| "flatten (RString x # rs) = x # flatten rs"

definition joinChildren :: "rendered list \<Rightarrow> string" where
  "joinChildren rs = concat (map joined (flatten rs))"

text \<open>
  \<^verbatim>\<open>serializeNode(node, document)\<close> and the \<^verbatim>\<open>map\<close> over a list of nodes that it and
  \<^verbatim>\<open>serialize\<close> run. The test \<^verbatim>\<open>children.flatten().length === 0\<close> chooses between the
  empty string and the join of an empty list, which are equal.
\<close>

fun serializeNode :: "encoder \<Rightarrow> parent \<Rightarrow> node \<Rightarrow> string \<Rightarrow> error + (rendered \<times> string)"
  and mapNodes :: "encoder \<Rightarrow> parent \<Rightarrow> node list \<Rightarrow> string \<Rightarrow> error + (rendered list \<times> string)"
where
  "serializeNode encode parent (Text leaves) tableHeader =
     (case mapLeaves encode leaves tableHeader of
        Inl e \<Rightarrow> Inl e
      | Inr (rs, tableHeader') \<Rightarrow> Inr (RLeaves rs, tableHeader'))"
| "serializeNode encode parent (Block t d nodes) tableHeader =
     (case mapNodes encode (NodeParent t) nodes tableHeader of
        Inl e \<Rightarrow> Inl e
      | Inr (rs, tableHeader') \<Rightarrow>
          (case applyRules (RULES encode) (BlockObj t d parent) (Some (joinChildren rs)) tableHeader' of
             Inl e \<Rightarrow> Inl e
           | Inr (ret, tableHeader'') \<Rightarrow> Inr (RString ret, tableHeader'')))"
| "serializeNode encode parent (Inline t d nodes) tableHeader =
     (case mapNodes encode (NodeParent t) nodes tableHeader of
        Inl e \<Rightarrow> Inl e
      | Inr (rs, tableHeader') \<Rightarrow>
          (case applyRules (RULES encode) (InlineObj t d) (Some (joinChildren rs)) tableHeader' of
             Inl e \<Rightarrow> Inl e
           | Inr (ret, tableHeader'') \<Rightarrow> Inr (RString ret, tableHeader'')))"
| "mapNodes encode parent [] tableHeader = Inr ([], tableHeader)"
| "mapNodes encode parent (n # ns) tableHeader =
     (case serializeNode encode parent n tableHeader of
        Inl e \<Rightarrow> Inl e
      | Inr (r, tableHeader') \<Rightarrow>
          (case mapNodes encode parent ns tableHeader' of
             Inl e \<Rightarrow> Inl e
           | Inr (rs, tableHeader'') \<Rightarrow> Inr (r # rs, tableHeader'')))"

subsection \<open>The facade\<close>

text \<open>\<^verbatim>\<open>xs.join(sep)\<close>\<close>

fun joinWith :: "string \<Rightarrow> string list \<Rightarrow> string" where
  "joinWith sep [] = []"
| "joinWith sep [x] = x"
| "joinWith sep (x # y # ys) = x @ sep @ joinWith sep (y # ys)"

text \<open>
  What \<^verbatim>\<open>elements.join("\n")\<close> makes of one element. A top-level text node gives a list,
  which \<^verbatim>\<open>join\<close> turns into a string with the list's own \<^verbatim>\<open>toString\<close>; that method
  is the Immutable library's and a parameter here.
\<close>

fun element :: "(string option list \<Rightarrow> string) \<Rightarrow> rendered \<Rightarrow> string" where
  "element listToString (RString x) = joined x"
| "element listToString (RLeaves xs) = listToString xs"

definition serialize :: "(string option list \<Rightarrow> string) \<Rightarrow> encoder \<Rightarrow> document \<Rightarrow> string \<Rightarrow> error + (string \<times> string)" where
  "serialize listToString encode doc tableHeader =
     (case mapNodes encode DocumentParent (doc_nodes doc) tableHeader of
        Inl e \<Rightarrow> Inl e
      | Inr (elements, tableHeader') \<Rightarrow>
          (let output = joinWith ''\<newline>'' (map (element listToString) elements)
           in Inr (trimStart output, tableHeader')))"

section \<open>Definitions used to state the properties\<close>

text \<open>
  The characters the first rule escapes, the escaping of one character, and the inverse
  reading of an escaped text: a backslash before one of those characters is dropped.
\<close>

definition special :: "char \<Rightarrow> bool" where
  "special c \<longleftrightarrow>
     c = CHR 0x5C \<or> c = CHR ''@'' \<or> c = CHR ''!'' \<or> c = CHR ''['' \<or> c = CHR '']'' \<or> c = CHR ''%''"

definition escapeChar :: "char \<Rightarrow> string" where
  "escapeChar c = (if special c then [CHR 0x5C, c] else [c])"

fun unescape :: "string \<Rightarrow> string" where
  "unescape [] = []"
| "unescape [c] = [c]"
| "unescape (c # d # cs) =
     (if c = CHR 0x5C \<and> special d then d # unescape cs else c # unescape (d # cs))"

text \<open>The block type of a heading of level \<open>n\<close>, from 1 to 6.\<close>

definition headingType :: "nat \<Rightarrow> string" where
  "headingType n = ''heading'' @ [''123456'' ! (n - 1)]"

text \<open>
  The marker of a list item, in the words of the specification: chosen from the type of
  the item's parent, and for a parent of type todo-list from the item's own field
  \<^verbatim>\<open>checked\<close>.
\<close>

definition itemMarker :: "string option \<Rightarrow> data \<Rightarrow> string" where
  "itemMarker parent_type d =
     (if parent_type = Some ''ordered-list'' then ''1. ''
      else if parent_type = Some ''todo-list''
      then (if truthy (getIn d ''checked'') then ''[x] '' else ''[ ] '')
      else ''* '')"

text \<open>A text ends with exactly one newline: its last character is one, the one before is not.\<close>

definition endsWithOneNewline :: "string \<Rightarrow> bool" where
  "endsWithOneNewline s =
     (case rev s of
        [] \<Rightarrow> False
      | c # r \<Rightarrow> c = CHR 0x0A \<and> (case r of [] \<Rightarrow> True | c' # _ \<Rightarrow> c' \<noteq> CHR 0x0A))"

text \<open>
  The lines of a text: a line ends with its line terminator, and the characters after the
  last line terminator are the last line, which is empty when the text ends with a line
  terminator or is empty itself. The lines put together are the text again.
\<close>

fun linesOf :: "string \<Rightarrow> string list" where
  "linesOf [] = [[]]"
| "linesOf (c # cs) =
     (if lineTerminator c then [c] # linesOf cs
      else (case linesOf cs of [] \<Rightarrow> [[c]] | l # ls \<Rightarrow> (c # l) # ls))"

text \<open>A line with three spaces before it.\<close>

definition indented :: "string \<Rightarrow> string" where
  "indented l = ''   '' @ l"




text \<open>
  A stand-in for the encoder, for the examples: it returns its argument as a string.
\<close>

definition sampleEncode :: encoder where
  "sampleEncode v = Inr (toStr v)"

text \<open>
  The table of the specification's example: a head row of two cells aligned left and
  right, and a data row of two cells.
\<close>

definition exampleTable :: node where
  "exampleTable =
     Block ''table'' Map.empty
       [Block ''table-row'' Map.empty
          [Block ''table-head'' [''align'' \<mapsto> JStr ''left''] [Text [Leaf ''col1'' []]],
           Block ''table-head'' [''align'' \<mapsto> JStr ''right''] [Text [Leaf ''col2'' []]]],
        Block ''table-row'' Map.empty
          [Block ''table-cell'' Map.empty [Text [Leaf ''a'' []]],
           Block ''table-cell'' Map.empty [Text [Leaf ''b'' []]]]]"


section \<open>Dispatch lemmas\<close>

lemma applyRules_block:
  "applyRules (RULES encode) (BlockObj t d p) c th =
     (case rule_block encode (BlockObj t d p) c th of
        Inl e \<Rightarrow> Inl e
      | Inr (ret, th') \<Rightarrow> if truthyRet ret then Inr (ret, th') else Inr (None, th'))"
  by (simp add: RULES_def del: rule_block.simps split: sum.splits prod.splits)

lemma applyRules_mark:
  "applyRules (RULES encode) (MarkObj t) c th =
     (case rule_mark (MarkObj t) c th of
        Inl e \<Rightarrow> Inl e
      | Inr (ret, th') \<Rightarrow> if truthyRet ret then Inr (ret, th') else Inr (None, th'))"
  by (simp add: RULES_def del: rule_mark.simps split: sum.splits prod.splits)

lemma applyRules_string:
  "applyRules (RULES encode) (StringRec t) c th =
     (if escape (tpl c) \<noteq> [] then Inr (Some (escape (tpl c)), th) else Inr (None, th))"
  by (simp add: RULES_def)

lemma replaceChar_Nil [simp]: "replaceChar c r [] = []"
  by (simp add: replaceChar_def)

lemma replaceChar_Cons [simp]:
  "replaceChar c r (x # xs) = (if x = c then r else [x]) @ replaceChar c r xs"
  by (simp add: replaceChar_def)

lemma replaceChar_append: "replaceChar c r (xs @ ys) = replaceChar c r xs @ replaceChar c r ys"
  by (simp add: replaceChar_def)

lemma escape_Nil: "escape [] = []"
  by (simp add: escape_def)

lemma escape_Cons: "escape (c # cs) = escapeChar c @ escape cs"
  by (simp add: escape_def escapeChar_def special_def replaceChar_append)

lemma escape_eq_Nil: "escape t = [] \<longleftrightarrow> t = []"
  by (cases t) (simp_all add: escape_Nil escape_Cons escapeChar_def)

lemma serializeString_eq:
  "serializeString encode t th = Inr (if t = [] then None else Some (escape t), th)"
  by (simp add: serializeString_def applyRules_string escape_eq_Nil)

lemma serializeNode_Block:
  assumes "mapNodes encode (NodeParent t) ns th = Inr (rs, th1)"
  shows "serializeNode encode p (Block t d ns) th =
     (case rule_block encode (BlockObj t d p) (Some (joinChildren rs)) th1 of
        Inl e \<Rightarrow> Inl e
      | Inr (ret, th') \<Rightarrow> Inr (RString (if truthyRet ret then ret else None), th'))"
  using assms by (simp add: applyRules_block del: rule_block.simps split: sum.splits prod.splits)

lemma serializeLeaves_plain:
  "serializeLeaves encode (Leaf t []) th = Inr (if t = [] then None else Some (escape t), th)"
  by (simp add: serializeLeaves_def serializeString_eq)

lemma mapNodes_text1:
  "mapNodes encode p [Text [Leaf t []]] th =
     Inr ([RLeaves [if t = [] then None else Some (escape t)]], th)"
  by (simp add: serializeLeaves_plain)

section \<open>The escaping of plain text\<close>

text \<open>
  C8. The first rule returns, for the record of kind "string", the escaped text and leaves
  the table header alone. The chain of six replacements is the character-wise map that
  puts a backslash before each of the characters backslash, at sign, exclamation mark,
  opening bracket, closing bracket and percent sign, once each, and leaves any other
  character as it is, the asterisk, the underscore and the backtick among them. Dropping
  one backslash before each of those characters in the escaped text gives the text back.
\<close>

theorem escape_roundtrip:
  "rule_string (StringRec x) (Some t) th = Inr (Some (escape t), th)
   \<and> escape t = concat (map escapeChar t)
   \<and> escapeChar (CHR ''*'') = [CHR ''*'']
   \<and> escapeChar (CHR ''_'') = [CHR ''_'']
   \<and> escapeChar (CHR 0x60) = [CHR 0x60]
   \<and> unescape (escape t) = t"
proof -
  have a: "escape t = concat (map escapeChar t)"
    by (induction t) (simp_all add: escape_Nil escape_Cons)
  have b: "unescape (escape t) = t"
  proof (induction t)
    case Nil
    show ?case by (simp add: escape_Nil)
  next
    case (Cons c cs)
    show ?case
    proof (cases "special c")
      case True
      then show ?thesis using Cons by (simp add: escape_Cons escapeChar_def)
    next
      case False
      show ?thesis
      proof (cases cs)
        case Nil
        then show ?thesis using False by (simp add: escape_Cons escape_Nil escapeChar_def)
      next
        case (Cons d ds)
        then show ?thesis using False Cons.IH
          by (auto simp add: escape_Cons escapeChar_def special_def)
      qed
    qed
  qed
  show ?thesis using a b by (simp add: escapeChar_def special_def)
qed

section \<open>Marks and leaves\<close>

text \<open>
  For a leaf with a text that is not empty and the marks bold, italic in this order, the
  fold starts from the escaped text and gives the italic wrapping of its bold wrapping.
\<close>

lemma marks_bold_italic_nonempty:
  "t \<noteq> [] \<Longrightarrow> serializeLeaves encode (Leaf t [Mark ''bold'', Mark ''italic'']) th =
     Inr (Some (''*'' @ ''**'' @ escape t @ ''**'' @ ''*''), th)"
  by (simp add: serializeLeaves_def serializeString_eq applyRules_mark)

text \<open>
  C4. At the empty text the fold does not start from the escaped text: the escaped text is
  the empty string, which the loop of \<^verbatim>\<open>serializeString\<close> takes for no result, so the
  fold starts from \<^verbatim>\<open>undefined\<close> and the bold rule interpolates it. The leaf with the
  empty text and the marks bold, italic renders as \<^verbatim>\<open>***undefined***\<close>, not as the six
  asterisks that wrap the empty escaped text.
\<close>

theorem marks_bold_italic_empty:
  "serializeLeaves sampleEncode (Leaf [] [Mark ''bold'', Mark ''italic'']) [] =
     Inr (Some ''***undefined***'', [])"
  by (simp add: serializeLeaves_def serializeString_eq applyRules_mark)

text \<open>
  A block for which the block rule returns nothing or the empty string renders as
  \<^verbatim>\<open>undefined\<close>, which the join of its parent's children and the join of the
  document count as the empty string. A leaf whose last mark has no rule renders as
  \<^verbatim>\<open>undefined\<close> too. A mark with no rule that is not the last hands \<^verbatim>\<open>undefined\<close>
  to the next mark, which interpolates it.
\<close>

lemma unmatched_block_contributes_nothing:
  assumes "mapNodes encode (NodeParent t) ns th = Inr (rs, th1)"
    and "rule_block encode (BlockObj t d p) (Some (joinChildren rs)) th1 = Inr (ret, th2)"
    and "\<not> truthyRet ret"
  shows "serializeNode encode p (Block t d ns) th = Inr (RString None, th2)"
    and "joinChildren [RString None] = []"
    and "element listToString (RString None) = []"
  using assms serializeNode_Block [OF assms(1), of p d]
  by (simp_all add: joinChildren_def del: rule_block.simps serializeNode.simps)

lemma unknown_mark_last:
  "serializeLeaves encode (Leaf ''a'' [Mark ''bold'', Mark ''unknown'']) th = Inr (None, th)"
  by (simp add: serializeLeaves_def serializeString_eq applyRules_mark)

lemma unknown_mark_then_bold:
  "serializeLeaves encode (Leaf ''a'' [Mark ''unknown'', Mark ''bold'']) th =
     Inr (Some ''**undefined**'', th)"
  by (simp add: serializeLeaves_def serializeString_eq applyRules_mark)

text \<open>
  C3. A paragraph whose only text leaf has the text "a" and two marks, first one of a type
  no rule knows and then bold, serializes to a document that holds the literal text
  \<^verbatim>\<open>undefined\<close> in place of the leaf's text: the step of the fold for the unknown mark
  returns \<^verbatim>\<open>undefined\<close>, and the bold rule interpolates it.
\<close>

theorem unknown_mark_undefined:
  "\<forall>listToString. serialize listToString sampleEncode
     (Document [Block ''paragraph'' Map.empty
        [Text [Leaf ''a'' [Mark ''underlined'', Mark ''bold'']]]]) [] =
   Inr (''**undefined**\<newline>'', [])"
  by (simp add: serialize_def serializeLeaves_def serializeString_eq applyRules_mark
      applyRules_block joinChildren_def trimStart_def isSpace_def)

section \<open>Headings\<close>

lemma headingType_simps:
  "headingType 1 = ''heading1''" "headingType 2 = ''heading2''" "headingType 3 = ''heading3''"
  "headingType 4 = ''heading4''" "headingType 5 = ''heading5''" "headingType 6 = ''heading6''"
  by (simp_all add: headingType_def)

lemma upto6:
  "1 \<le> n \<Longrightarrow> n \<le> 6 \<Longrightarrow> n = 1 \<or> n = 2 \<or> n = 3 \<or> n = 4 \<or> n = 5 \<or> n = (6::nat)"
  by arith

lemma replicate_hash:
  "replicate 2 c = [c, c]" "replicate 3 c = [c, c, c]" "replicate 4 c = [c, c, c, c]"
  "replicate 5 c = [c, c, c, c, c]" "replicate 6 c = [c, c, c, c, c, c]"
  by (simp_all add: numeral_2_eq_2 numeral_3_eq_3 eval_nat_numeral)

text \<open>
  C7. A heading block of level \<open>n\<close>, from 1 to 6, whose children render without an
  exception, renders as \<open>n\<close> number signs, one space and the children's text; the
  children's text gets the soft-break formatting (each newline replaced by two spaces and
  a newline) at level 1 only, and is passed unchanged at the levels 2 to 6.
\<close>

theorem heading_render:
  assumes "1 \<le> n" "n \<le> 6"
    and "mapNodes encode (NodeParent (headingType n)) ns th = Inr (rs, th1)"
  shows "serializeNode encode p (Block (headingType n) d ns) th =
     Inr (RString (Some (replicate n (CHR ''#'') @ '' '' @
            (if n = 1 then replaceChar (CHR 0x0A) ''  \<newline>'' (joinChildren rs)
             else joinChildren rs))), th1)"
proof -
  from assms(1,2) consider "n = 1" | "n = 2" | "n = 3" | "n = 4" | "n = 5" | "n = 6"
    using upto6 by blast
  then show ?thesis
  proof cases
    case 1
    with assms(3) have "mapNodes encode (NodeParent ''heading1'') ns th = Inr (rs, th1)"
      by (simp add: headingType_def)
    from serializeNode_Block [OF this] show ?thesis
      unfolding 1 headingType_simps by simp
  next
    case 2
    with assms(3) have "mapNodes encode (NodeParent ''heading2'') ns th = Inr (rs, th1)"
      by (simp add: headingType_simps)
    from serializeNode_Block [OF this] show ?thesis
      unfolding 2 headingType_simps by (simp add: replicate_hash)
  next
    case 3
    with assms(3) have "mapNodes encode (NodeParent ''heading3'') ns th = Inr (rs, th1)"
      by (simp add: headingType_simps)
    from serializeNode_Block [OF this] show ?thesis
      unfolding 3 headingType_simps by (simp add: replicate_hash)
  next
    case 4
    with assms(3) have "mapNodes encode (NodeParent ''heading4'') ns th = Inr (rs, th1)"
      by (simp add: headingType_simps)
    from serializeNode_Block [OF this] show ?thesis
      unfolding 4 headingType_simps by (simp add: replicate_hash)
  next
    case 5
    with assms(3) have "mapNodes encode (NodeParent ''heading5'') ns th = Inr (rs, th1)"
      by (simp add: headingType_simps)
    from serializeNode_Block [OF this] show ?thesis
      unfolding 5 headingType_simps by (simp add: replicate_hash)
  next
    case 6
    with assms(3) have "mapNodes encode (NodeParent ''heading6'') ns th = Inr (rs, th1)"
      by (simp add: headingType_simps)
    from serializeNode_Block [OF this] show ?thesis
      unfolding 6 headingType_simps by (simp add: replicate_hash)
  qed
qed

text \<open>
  The heading of level 2 over the text "a", newline, "b" keeps the newline; the same
  heading at level 1 gets the two spaces before it.
\<close>

theorem heading_render_witness:
  "serializeNode sampleEncode DocumentParent
      (Block ''heading2'' Map.empty [Text [Leaf ''a\<newline>b'' []]]) [] =
     Inr (RString (Some ''## a\<newline>b''), [])
   \<and> serializeNode sampleEncode DocumentParent
      (Block ''heading1'' Map.empty [Text [Leaf ''a\<newline>b'' []]]) [] =
     Inr (RString (Some ''# a  \<newline>b''), [])"
proof -
  have m: "\<And>t. mapNodes sampleEncode (NodeParent t) [Text [Leaf ''a\<newline>b'' []]] [] =
      Inr ([RLeaves [Some ''a\<newline>b'']], [])"
    by (simp only: mapNodes_text1) (simp add: escape_def)
  have j: "joinChildren [RLeaves [Some ''a\<newline>b'']] = ''a\<newline>b''"
    by (simp add: joinChildren_def)
  have "serializeNode sampleEncode DocumentParent
      (Block (headingType 2) Map.empty [Text [Leaf ''a\<newline>b'' []]]) [] =
     Inr (RString (Some ''## a\<newline>b''), [])"
    using heading_render [of 2 sampleEncode "[Text [Leaf ''a\<newline>b'' []]]" "[]" _ "[]"
        DocumentParent Map.empty, OF _ _ m]
    by (simp add: j replicate_hash del: serializeNode.simps)
  moreover have "serializeNode sampleEncode DocumentParent
      (Block (headingType 1) Map.empty [Text [Leaf ''a\<newline>b'' []]]) [] =
     Inr (RString (Some ''# a  \<newline>b''), [])"
    using heading_render [of 1 sampleEncode "[Text [Leaf ''a\<newline>b'' []]]" "[]" _ "[]"
        DocumentParent Map.empty, OF _ _ m]
    by (simp add: j del: serializeNode.simps)
  ultimately show ?thesis by (simp only: headingType_simps)
qed

section \<open>Images\<close>

text \<open>
  C10. An image block whose data has no field \<^verbatim>\<open>alt\<close> and whose children render
  without an exception renders as an exclamation mark, the text \<^verbatim>\<open>undefined\<close> in
  brackets, the encoded source in parentheses and a newline. The encoded source is what
  the encoder returns for the field \<^verbatim>\<open>src\<close> when that field holds a string that is
  not empty, and what it returns for the empty string when the field is missing: only
  the source has a default.
\<close>

theorem image_without_alt:
  assumes "d ''alt'' = None"
    and "mapNodes encode (NodeParent ''image'') ns th = Inr (rs, th1)"
  shows "(d ''src'' = Some (JStr s) \<and> s \<noteq> [] \<and> encode (JStr s) = Inr u \<longrightarrow>
            serializeNode encode p (Block ''image'' d ns) th =
              Inr (RString (Some (''![undefined]('' @ u @ '')\<newline>'')), th1))
       \<and> (d ''src'' = None \<and> encode (JStr []) = Inr u' \<longrightarrow>
            serializeNode encode p (Block ''image'' d ns) th =
              Inr (RString (Some (''![undefined]('' @ u' @ '')\<newline>'')), th1))
       \<and> (encode (orEmpty (getIn d ''src'')) = Inr u'' \<longrightarrow>
            serializeNode encode p (Block ''image'' d ns) th =
              Inr (RString (Some (''![undefined]('' @ u'' @ '')\<newline>'')), th1))"
  using assms(1) serializeNode_Block [OF assms(2), of p d]
  by (auto simp add: getIn_def orEmpty_def simp del: serializeNode.simps)

text \<open>
  An image with a source and no other data, and an image with no data at all, under the
  encoder of the examples.
\<close>

theorem image_without_alt_witness:
  "serializeNode sampleEncode DocumentParent
      (Block ''image'' [''src'' \<mapsto> JStr ''a.png''] [Text [Leaf [] []]]) [] =
     Inr (RString (Some ''![undefined](a.png)\<newline>''), [])
   \<and> serializeNode sampleEncode DocumentParent (Block ''image'' Map.empty [Text [Leaf [] []]]) [] =
     Inr (RString (Some ''![undefined]()\<newline>''), [])"
proof -
  have m: "mapNodes sampleEncode (NodeParent ''image'') [Text [Leaf [] []]] [] =
      Inr ([RLeaves [None]], [])"
    by (simp only: mapNodes_text1) simp
  show ?thesis
    using image_without_alt [of "[''src'' \<mapsto> JStr ''a.png'']" sampleEncode "[Text [Leaf [] []]]"
            "[]" _ "[]" "''a.png''" "''a.png''" DocumentParent, OF _ m]
          image_without_alt [of Map.empty sampleEncode "[Text [Leaf [] []]]"
            "[]" _ "[]" _ _ DocumentParent "[]", OF _ m]
    by (simp add: sampleEncode_def del: serializeNode.simps)
qed

section \<open>List items and lists\<close>

lemma last_replaceChar:
  "s \<noteq> [] \<Longrightarrow> last (replaceChar (CHR 0x0A) ''  \<newline>'' s) = last s"
proof (induction s)
  case Nil
  then show ?case by simp
next
  case (Cons c cs)
  show ?case
  proof (cases cs)
    case Nil
    then show ?thesis by simp
  next
    case (Cons d ds)
    then have "replaceChar (CHR 0x0A) ''  \<newline>'' cs \<noteq> []" by simp
    then show ?thesis using Cons.IH Cons by simp
  qed
qed

lemma replaceChar_eq_Nil: "replaceChar (CHR 0x0A) ''  \<newline>'' s = [] \<longleftrightarrow> s = []"
  by (cases s) simp_all

lemma endsWithOneNewline_snoc:
  "endsWithOneNewline (b @ ''\<newline>'') \<longleftrightarrow> b = [] \<or> last b \<noteq> CHR 0x0A"
  by (cases b rule: rev_cases) (simp_all add: endsWithOneNewline_def)

lemma item_one_newline:
  "endsWithOneNewline (itemMarker pt d @ replaceChar (CHR 0x0A) ''  \<newline>'' c @ ''\<newline>'')
   \<longleftrightarrow> c = [] \<or> last c \<noteq> CHR 0x0A"
proof -
  have "endsWithOneNewline ((itemMarker pt d @ replaceChar (CHR 0x0A) ''  \<newline>'' c) @ ''\<newline>'')
     \<longleftrightarrow> c = [] \<or> last c \<noteq> CHR 0x0A"
    unfolding endsWithOneNewline_snoc
    by (cases "c = []") (auto simp: itemMarker_def last_replaceChar replaceChar_eq_Nil)
  then show ?thesis by simp
qed

text \<open>
  C5, as the code has it. A list-item block whose children render without an exception
  renders as the marker, the soft-break formatting of the children's text (each newline
  replaced by two spaces and a newline) and one newline appended. The marker comes from
  the type of the immediate parent: \<^verbatim>\<open>1. \<close> under an ordered-list, under a todo-list
  \<^verbatim>\<open>[x] \<close> when the item's own field \<^verbatim>\<open>checked\<close> is truthy and \<^verbatim>\<open>[ ] \<close> when it is
  not, and \<^verbatim>\<open>* \<close> under a bulleted-list, any other node or the document. The rendered
  item ends with exactly one newline if and only if the children's text does not end with
  a newline itself.
\<close>

theorem list_item_render:
  assumes "mapNodes encode (NodeParent ''list-item'') ns th = Inr (rs, th1)"
  shows "serializeNode encode p (Block ''list-item'' d ns) th =
           Inr (RString (Some (itemMarker (parentType p) d @
                  replaceChar (CHR 0x0A) ''  \<newline>'' (joinChildren rs) @ ''\<newline>'')), th1)
       \<and> (endsWithOneNewline (itemMarker (parentType p) d @
              replaceChar (CHR 0x0A) ''  \<newline>'' (joinChildren rs) @ ''\<newline>'')
            \<longleftrightarrow> joinChildren rs = [] \<or> last (joinChildren rs) \<noteq> CHR 0x0A)"
proof -
  have "serializeNode encode p (Block ''list-item'' d ns) th =
           Inr (RString (Some (itemMarker (parentType p) d @
                  replaceChar (CHR 0x0A) ''  \<newline>'' (joinChildren rs) @ ''\<newline>'')), th1)"
    using serializeNode_Block [OF assms]
    by (simp add: listItem_def itemMarker_def Let_def)
  then show ?thesis
    using item_one_newline [of "parentType p" d "joinChildren rs"] by blast
qed

text \<open>
  A checked item of a todo-list whose text has a newline inside: the marker is the checked
  box, the newline inside gets two spaces before it, and the item ends with one newline.
\<close>

theorem list_item_render_witness:
  "serializeNode sampleEncode (NodeParent ''todo-list'')
      (Block ''list-item'' [''checked'' \<mapsto> JBool True] [Text [Leaf ''a\<newline>b'' []]]) [] =
     Inr (RString (Some ''[x] a  \<newline>b\<newline>''), [])
   \<and> endsWithOneNewline ''[x] a  \<newline>b\<newline>''"
proof -
  have m: "mapNodes sampleEncode (NodeParent ''list-item'') [Text [Leaf ''a\<newline>b'' []]] [] =
      Inr ([RLeaves [Some ''a\<newline>b'']], [])"
    by (simp only: mapNodes_text1) (simp add: escape_def)
  show ?thesis
    using list_item_render [OF m, of "NodeParent ''todo-list''" "[''checked'' \<mapsto> JBool True]"]
    by (simp add: joinChildren_def itemMarker_def getIn_def del: serializeNode.simps)
qed

text \<open>
  C5, as the claim has it, fails where the children's text ends with a newline: the item of
  a bulleted-list whose text is "a" and a newline renders with two newlines at its end.
\<close>

theorem list_item_two_newlines:
  "serializeNode sampleEncode (NodeParent ''bulleted-list'')
      (Block ''list-item'' Map.empty [Text [Leaf ''a\<newline>'' []]]) [] =
     Inr (RString (Some ''* a  \<newline>\<newline>''), [])
   \<and> \<not> endsWithOneNewline ''* a  \<newline>\<newline>''"
proof -
  have m: "mapNodes sampleEncode (NodeParent ''list-item'') [Text [Leaf ''a\<newline>'' []]] [] =
      Inr ([RLeaves [Some ''a\<newline>'']], [])"
    by (simp only: mapNodes_text1) (simp add: escape_def)
  show ?thesis
    unfolding serializeNode_Block [OF m]
    by (simp add: joinChildren_def listItem_def endsWithOneNewline_def)
qed

lemma linesOf_nonempty: "linesOf s \<noteq> []"
  by (induction s) (auto split: list.splits)

lemma concat_linesOf: "concat (linesOf s) = s"
  by (induction s) (auto split: list.splits)

lemma indentAfter_linesOf:
  "''   '' @ indentAfter s = concat (map indented (linesOf s))"
proof (induction s)
  case Nil
  show ?case by (simp add: indented_def)
next
  case (Cons c cs)
  define rest where "rest = concat (map indented (linesOf cs))"
  have ih: "''   '' @ indentAfter cs = rest"
    using Cons by (simp only: rest_def)
  show ?case
  proof (cases "lineTerminator c")
    case True
    have "''   '' @ indentAfter (c # cs) = ''   '' @ c # ''   '' @ indentAfter cs"
      using True by simp
    also have "\<dots> = indented [c] @ rest"
      using ih by (simp add: indented_def)
    also have "\<dots> = concat (map indented (linesOf (c # cs)))"
      using True by (simp add: rest_def)
    finally show ?thesis .
  next
    case False
    obtain l ls where l: "linesOf cs = l # ls"
      using linesOf_nonempty [of cs] by (cases "linesOf cs") auto
    define tl where "tl = concat (map indented ls)"
    have r: "rest = indented l @ tl"
      by (simp add: rest_def tl_def l)
    have "''   '' @ indentAfter (c # cs) = ''   '' @ c # indentAfter cs"
      using False by simp
    also have "\<dots> = indented (c # l) @ tl"
      using ih r by (simp add: indented_def)
    also have "\<dots> = concat (map indented (linesOf (c # cs)))"
      using False l by (simp add: tl_def)
    finally show ?thesis .
  qed
qed

lemma indentLines_linesOf: "indentLines s = concat (map indented (linesOf s))"
  unfolding indentLines_def by (rule indentAfter_linesOf)

text \<open>
  What \<open>linesOf\<close> splits a text into: the last line has no line terminator, and every
  line before it ends with one and has no other.
\<close>

lemma linesOf_last: "\<forall>c \<in> set (last (linesOf s)). \<not> lineTerminator c"
proof (induction s)
  case Nil
  show ?case by simp
next
  case (Cons c cs)
  obtain l ls where l: "linesOf cs = l # ls"
    using linesOf_nonempty [of cs] by (cases "linesOf cs") auto
  show ?case using Cons l by (cases ls) auto
qed

lemma linesOf_butlast:
  "\<forall>l \<in> set (butlast (linesOf s)).
      l \<noteq> [] \<and> lineTerminator (last l) \<and> (\<forall>c \<in> set (butlast l). \<not> lineTerminator c)"
proof (induction s)
  case Nil
  show ?case by simp
next
  case (Cons c cs)
  obtain l ls where l: "linesOf cs = l # ls"
    using linesOf_nonempty [of cs] by (cases "linesOf cs") auto
  show ?case
  proof (cases "lineTerminator c")
    case True
    then show ?thesis using Cons l by simp
  next
    case False
    show ?thesis
    proof (cases ls)
      case Nil
      then show ?thesis using False l by simp
    next
      case (Cons l' ls')
      have "l \<noteq> []" "lineTerminator (last l)" "\<forall>c \<in> set (butlast l). \<not> lineTerminator c"
        using Cons.IH l Cons by auto
      then show ?thesis using False l Cons Cons.IH by auto
    qed
  qed
qed

text \<open>
  C6. A block of type todo-list, bulleted-list or ordered-list whose children render
  without an exception renders, when its parent is the document, as a newline and the
  children's text, and under any other parent as a newline and the children's text with
  three spaces before every line of it. The lines are those of \<open>linesOf\<close>: a line starts
  at the start of the text and after every line terminator, so a text that ends with a
  newline has an empty last line, which gets its three spaces too.
\<close>

theorem list_render:
  assumes "t = ''todo-list'' \<or> t = ''bulleted-list'' \<or> t = ''ordered-list''"
    and "mapNodes encode (NodeParent t) ns th = Inr (rs, th1)"
  shows "serializeNode encode p (Block t d ns) th =
           Inr (RString (Some (''\<newline>'' @
                  (if p = DocumentParent then joinChildren rs
                   else concat (map indented (linesOf (joinChildren rs)))))), th1)
         \<and> concat (linesOf (joinChildren rs)) = joinChildren rs"
proof -
  from assms(1) consider "t = ''todo-list''" | "t = ''bulleted-list''" | "t = ''ordered-list''"
    by auto
  then have "serializeNode encode p (Block t d ns) th =
      Inr (RString (Some (''\<newline>'' @
         (if p = DocumentParent then joinChildren rs else indentLines (joinChildren rs)))), th1)"
  proof cases
    case 1
    show ?thesis using serializeNode_Block [OF assms(2)] unfolding 1 by simp
  next
    case 2
    show ?thesis using serializeNode_Block [OF assms(2)] unfolding 2 by simp
  next
    case 3
    show ?thesis using serializeNode_Block [OF assms(2)] unfolding 3 by simp
  qed
  then show ?thesis
    by (simp add: indentLines_linesOf concat_linesOf del: serializeNode.simps)
qed

text \<open>
  An ordered-list of two items, once inside a list-item and once at the top of the
  document: inside, each of its lines has three spaces before it; at the top, none.
\<close>

theorem list_render_witness:
  "serializeNode sampleEncode (NodeParent ''list-item'')
      (Block ''ordered-list'' Map.empty
         [Block ''list-item'' Map.empty [Text [Leaf ''b'' []]],
          Block ''list-item'' Map.empty [Text [Leaf ''c'' []]]]) [] =
     Inr (RString (Some ''\<newline>   1. b\<newline>   1. c\<newline>   ''), [])
   \<and> serializeNode sampleEncode DocumentParent
      (Block ''ordered-list'' Map.empty
         [Block ''list-item'' Map.empty [Text [Leaf ''b'' []]],
          Block ''list-item'' Map.empty [Text [Leaf ''c'' []]]]) [] =
     Inr (RString (Some ''\<newline>1. b\<newline>1. c\<newline>''), [])"
proof -
  let ?items = "[Block ''list-item'' Map.empty [Text [Leaf ''b'' []]],
                 Block ''list-item'' Map.empty [Text [Leaf ''c'' []]]]"
  have m: "mapNodes sampleEncode (NodeParent ''ordered-list'') ?items [] =
      Inr ([RString (Some ''1. b\<newline>''), RString (Some ''1. c\<newline>'')], [])"
    by (simp add: serializeLeaves_def serializeString_eq applyRules_block
        joinChildren_def escape_def listItem_def)
  have j: "joinChildren [RString (Some ''1. b\<newline>''), RString (Some ''1. c\<newline>'')] =
      ''1. b\<newline>1. c\<newline>''"
    by (simp add: joinChildren_def)
  have t: "''ordered-list'' = ''todo-list'' \<or> ''ordered-list'' = ''bulleted-list'' \<or>
      ''ordered-list'' = ''ordered-list''"
    by simp
  show ?thesis
    using list_render [OF t m, of "NodeParent ''list-item''" Map.empty]
          list_render [OF t m, of DocumentParent Map.empty]
    by (simp add: j indented_def lineTerminator_def del: serializeNode.simps)
qed

section \<open>Tables\<close>

lemma table_head_render:
  assumes "mapNodes encode (NodeParent ''table-head'') ns th = Inr (rs, th1)"
  shows "serializeNode encode p (Block ''table-head'' d ns) th =
           Inr (RString (Some (''| '' @ joinChildren rs @ '' '')),
                th1 @ alignMarker (getIn d ''align''))"
  using serializeNode_Block [OF assms] by simp

lemma table_row_render:
  assumes "mapNodes encode (NodeParent ''table-row'') ns th = Inr (rs, th1)"
  shows "serializeNode encode p (Block ''table-row'' d ns) th =
           Inr (RString (Some (joinChildren rs @ ''|\<newline>'' @
                  (if th1 \<noteq> [] then th1 @ ''|\<newline>'' else []))), [])"
  using serializeNode_Block [OF assms] by simp


lemma exampleTable_renders:
  "serializeNode encode DocumentParent exampleTable [] =
     Inr (RString (Some ''| col1 | col2 |\<newline>|:--- | ---:|\<newline>| a | b |\<newline>''), [])"
  by (simp add: exampleTable_def serializeLeaves_def serializeString_eq applyRules_block
      joinChildren_def escape_def alignMarker_def getIn_def)

text \<open>
  C2. A table-head cell whose children render without an exception renders as a bar, a
  space, the children's text and a space, and appends one marker to the table header the
  children left: the marker of the left, the centre or the right alignment, or the
  default marker for any other value of the field \<^verbatim>\<open>align\<close>, a missing one included.
  A table-row whose children render without an exception renders as the children's text,
  a bar and a newline, followed, when the table header the children left is not empty, by
  that header, a bar and a newline; the table header is empty afterwards. The example
  table, rendered from the empty table header, gives the three lines of the specification.
\<close>

theorem table_cells_and_rows:
  "(mapNodes encode (NodeParent ''table-head'') ns th = Inr (rs, th1) \<longrightarrow>
      serializeNode encode p (Block ''table-head'' d ns) th =
        Inr (RString (Some (''| '' @ joinChildren rs @ '' '')),
             th1 @ alignMarker (getIn d ''align'')))
   \<and> alignMarker (JStr ''left'') = ''|:--- ''
   \<and> alignMarker (JStr ''center'') = ''|:---:''
   \<and> alignMarker (JStr ''right'') = ''| ---:''
   \<and> (a \<noteq> JStr ''left'' \<and> a \<noteq> JStr ''center'' \<and> a \<noteq> JStr ''right'' \<longrightarrow>
        alignMarker a = ''| --- '')
   \<and> (mapNodes encode (NodeParent ''table-row'') ns' th' = Inr (rs', th1') \<longrightarrow>
      serializeNode encode p' (Block ''table-row'' d' ns') th' =
        Inr (RString (Some (joinChildren rs' @ ''|\<newline>'' @
               (if th1' \<noteq> [] then th1' @ ''|\<newline>'' else []))), []))
   \<and> serializeNode encode DocumentParent exampleTable [] =
        Inr (RString (Some ''| col1 | col2 |\<newline>|:--- | ---:|\<newline>| a | b |\<newline>''), [])"
  using table_head_render table_row_render exampleTable_renders
  by (simp add: alignMarker_def del: serializeNode.simps mapNodes.simps)

text \<open>
  A centred head cell rendered while one marker is pending, the marker of a missing
  alignment, a row rendered while one marker is pending, and the example table.
\<close>

theorem table_cells_and_rows_witness:
  "serializeNode sampleEncode (NodeParent ''table-row'')
      (Block ''table-head'' [''align'' \<mapsto> JStr ''center''] [Text [Leaf ''x'' []]]) ''|:--- '' =
     Inr (RString (Some ''| x ''), ''|:--- |:---:'')
   \<and> alignMarker JUndefined = ''| --- ''
   \<and> serializeNode sampleEncode (NodeParent ''table'')
      (Block ''table-row'' Map.empty [Text [Leaf ''y'' []]]) ''|:--- '' =
     Inr (RString (Some ''y|\<newline>|:--- |\<newline>''), [])
   \<and> serializeNode sampleEncode DocumentParent exampleTable [] =
        Inr (RString (Some ''| col1 | col2 |\<newline>|:--- | ---:|\<newline>| a | b |\<newline>''), [])"
proof -
  have m1: "mapNodes sampleEncode (NodeParent ''table-head'') [Text [Leaf ''x'' []]] ''|:--- '' =
      Inr ([RLeaves [Some ''x'']], ''|:--- '')"
    by (simp only: mapNodes_text1) (simp add: escape_def)
  have m2: "mapNodes sampleEncode (NodeParent ''table-row'') [Text [Leaf ''y'' []]] ''|:--- '' =
      Inr ([RLeaves [Some ''y'']], ''|:--- '')"
    by (simp only: mapNodes_text1) (simp add: escape_def)
  show ?thesis
    using table_cells_and_rows [of sampleEncode "[Text [Leaf ''x'' []]]" "''|:--- ''"
        "[RLeaves [Some ''x'']]" "''|:--- ''" "NodeParent ''table-row''"
        "[''align'' \<mapsto> JStr ''center'']" JUndefined
        "[Text [Leaf ''y'' []]]" "''|:--- ''" "[RLeaves [Some ''y'']]" "''|:--- ''"
        "NodeParent ''table''" Map.empty]
      m1 m2
    by (simp add: joinChildren_def alignMarker_def getIn_def
        del: serializeNode.simps mapNodes.simps)
qed











section \<open>The facade\<close>

lemma joinWith_Cons: "joinWith sep (x # xs) = x @ concat (map (\<lambda>y. sep @ y) xs)"
  by (induction xs arbitrary: x) simp_all

lemma trimStart_split: "takeWhile isSpace s @ trimStart s = s"
  by (simp add: trimStart_def)

lemma trimStart_dropped: "\<forall>c \<in> set (takeWhile isSpace s). isSpace c"
  by (auto dest: set_takeWhileD)

lemma trimStart_head: "trimStart s = [] \<or> \<not> isSpace (hd (trimStart s))"
  unfolding trimStart_def using hd_dropWhile [of isSpace s] by blast

lemma mapNodes_length:
  "mapNodes encode p ns th = Inr (rs, th1) \<Longrightarrow> length rs = length ns"
  by (induction ns arbitrary: th rs th1)
     (auto simp del: serializeNode.simps split: sum.splits prod.splits)

text \<open>
  The map over a list of nodes renders the nodes one after the other, each from the table
  header the one before it left, and keeps the results in the order of the nodes; every
  run of the map that throws no exception is such a chain.
\<close>

lemma mapNodes_in_order:
  assumes "length rs = length ns" and "length ss = Suc (length ns)"
    and "\<forall>i < length ns. serializeNode encode p (ns ! i) (ss ! i) = Inr (rs ! i, ss ! Suc i)"
  shows "mapNodes encode p ns (ss ! 0) = Inr (rs, ss ! length ns)"
  using assms
proof (induction ns arbitrary: rs ss)
  case Nil
  then show ?case by simp
next
  case (Cons n ns)
  from Cons.prems(1) obtain r rs' where rs: "rs = r # rs'" and l1: "length rs' = length ns"
    by (cases rs) auto
  from Cons.prems(2) obtain s ss' where ss: "ss = s # ss'" and l2: "length ss' = Suc (length ns)"
    by (cases ss) auto
  have first: "serializeNode encode p n s = Inr (r, ss' ! 0)"
    using Cons.prems(3) rs ss by auto
  have rest: "\<forall>i < length ns. serializeNode encode p (ns ! i) (ss' ! i) = Inr (rs' ! i, ss' ! Suc i)"
    using Cons.prems(3) rs ss by auto
  have "mapNodes encode p ns (ss' ! 0) = Inr (rs', ss' ! length ns)"
    by (rule Cons.IH [OF l1 l2 rest])
  then have "mapNodes encode p (n # ns) s = Inr (r # rs', ss' ! length ns)"
    using first by (simp only: mapNodes.simps sum.case prod.case)
  then show ?case by (simp add: rs ss)
qed

lemma mapNodes_steps:
  assumes "mapNodes encode p ns th = Inr (rs, th1)"
  shows "\<exists>ss. length ss = Suc (length ns) \<and> length rs = length ns \<and> ss ! 0 = th
            \<and> ss ! length ns = th1
            \<and> (\<forall>i < length ns. serializeNode encode p (ns ! i) (ss ! i) = Inr (rs ! i, ss ! Suc i))"
  using assms
proof (induction ns arbitrary: th rs)
  case Nil
  then show ?case by (intro exI [of _ "[th]"]) simp
next
  case (Cons n ns)
  from Cons.prems obtain r th' rs' where
    a: "serializeNode encode p n th = Inr (r, th')" and
    b: "mapNodes encode p ns th' = Inr (rs', th1)" and
    c: "rs = r # rs'"
    by (auto simp del: serializeNode.simps split: sum.splits prod.splits)
  from Cons.IH [OF b] obtain ss where
    ss: "length ss = Suc (length ns)" "length rs' = length ns" "ss ! 0 = th'"
        "ss ! length ns = th1"
        "\<forall>i < length ns. serializeNode encode p (ns ! i) (ss ! i) = Inr (rs' ! i, ss ! Suc i)"
    by blast
  have "\<forall>i < length (n # ns).
      serializeNode encode p ((n # ns) ! i) ((th # ss) ! i) = Inr (rs ! i, (th # ss) ! Suc i)"
  proof (intro allI impI)
    fix i
    assume "i < length (n # ns)"
    then show "serializeNode encode p ((n # ns) ! i) ((th # ss) ! i) =
        Inr (rs ! i, (th # ss) ! Suc i)"
      using a c ss(3,5) by (cases i) (simp_all del: serializeNode.simps)
  qed
  then show ?case
    using ss(1,2,4) c by (intro exI [of _ "th # ss"]) (simp del: serializeNode.simps)
qed

text \<open>
  C9. When the top-level nodes of a document render in order without an exception, the
  first from the table header at the call and each of the others from the table header the
  node before it left, \<^verbatim>\<open>serialize\<close> returns the join of the per-node results, in the
  order of the nodes and with a single newline between two results, with the white space
  at its start removed: what is removed is a prefix of white space, what is left does not
  start with white space, and nothing is removed at the end. The table header it leaves
  is the one the last node left.
\<close>

theorem serialize_joins_and_trims:
  assumes "length rs = length ns" and "length ss = Suc (length ns)"
    and "\<forall>i < length ns.
           serializeNode encode DocumentParent (ns ! i) (ss ! i) = Inr (rs ! i, ss ! Suc i)"
  shows "serialize listToString encode (Document ns) (ss ! 0) =
           Inr (trimStart (joinWith ''\<newline>'' (map (element listToString) rs)), ss ! length ns)
       \<and> joinWith ''\<newline>'' (map (element listToString) rs) =
           (case map (element listToString) rs of
              [] \<Rightarrow> []
            | x # xs \<Rightarrow> x @ concat (map (\<lambda>y. ''\<newline>'' @ y) xs))
       \<and> (\<exists>ws. joinWith ''\<newline>'' (map (element listToString) rs) =
                  ws @ trimStart (joinWith ''\<newline>'' (map (element listToString) rs))
               \<and> (\<forall>c \<in> set ws. isSpace c))
       \<and> (trimStart (joinWith ''\<newline>'' (map (element listToString) rs)) = []
           \<or> \<not> isSpace (hd (trimStart (joinWith ''\<newline>'' (map (element listToString) rs)))))"
proof -
  let ?j = "joinWith ''\<newline>'' (map (element listToString) rs)"
  have m: "mapNodes encode DocumentParent (doc_nodes (Document ns)) (ss ! 0) =
      Inr (rs, ss ! length ns)"
    using mapNodes_in_order [OF assms] by simp
  have s: "serialize listToString encode (Document ns) (ss ! 0) =
      Inr (trimStart ?j, ss ! length ns)"
    unfolding serialize_def m by simp
  have j: "?j = (case map (element listToString) rs of
              [] \<Rightarrow> []
            | x # xs \<Rightarrow> x @ concat (map (\<lambda>y. ''\<newline>'' @ y) xs))"
    by (cases "map (element listToString) rs") (simp_all only: joinWith.simps joinWith_Cons list.case)
  have e: "\<exists>ws. ?j = ws @ trimStart ?j \<and> (\<forall>c \<in> set ws. isSpace c)"
    using trimStart_split [of ?j] trimStart_dropped [of ?j] by metis
  show ?thesis using s j e trimStart_head [of ?j] by blast
qed

text \<open>
  The document whose only top-level node is a paragraph with the single text leaf
  "hello" serializes to "hello" and one newline: the paragraph rule gives a newline,
  the text and a newline, and the newline at the start is removed. A document of a head
  cell, that paragraph and a row serializes to the three results in this order, the row
  with the marker the head cell left pending two nodes before it.
\<close>

theorem serialize_joins_and_trims_witness:
  "(\<forall>listToString. serialize listToString sampleEncode
      (Document [Block ''paragraph'' Map.empty [Text [Leaf ''hello'' []]]]) [] =
     Inr (''hello\<newline>'', []))
   \<and> (\<forall>listToString. serialize listToString sampleEncode
      (Document [Block ''table-head'' Map.empty [Text [Leaf ''h'' []]],
                 Block ''paragraph'' Map.empty [Text [Leaf ''hello'' []]],
                 Block ''table-row'' Map.empty [Text [Leaf ''r'' []]]]) [] =
     Inr (''| h \<newline>\<newline>hello\<newline>\<newline>r|\<newline>| --- |\<newline>'', []))"
proof -
  have p: "\<And>th. serializeNode sampleEncode DocumentParent
      (Block ''paragraph'' Map.empty [Text [Leaf ''hello'' []]]) th =
      Inr (RString (Some ''\<newline>hello\<newline>''), th)"
    by (simp add: serializeLeaves_def serializeString_eq applyRules_block
        joinChildren_def escape_def)
  have h: "serializeNode sampleEncode DocumentParent
      (Block ''table-head'' Map.empty [Text [Leaf ''h'' []]]) [] =
      Inr (RString (Some ''| h ''), ''| --- '')"
    by (simp add: serializeLeaves_def serializeString_eq applyRules_block
        joinChildren_def escape_def alignMarker_def getIn_def)
  have r: "serializeNode sampleEncode DocumentParent
      (Block ''table-row'' Map.empty [Text [Leaf ''r'' []]]) ''| --- '' =
      Inr (RString (Some ''r|\<newline>| --- |\<newline>''), [])"
    by (simp add: serializeLeaves_def serializeString_eq applyRules_block
        joinChildren_def escape_def)
  have one: "\<forall>i < length [Block ''paragraph'' Map.empty [Text [Leaf ''hello'' []]]].
      serializeNode sampleEncode DocumentParent
        ([Block ''paragraph'' Map.empty [Text [Leaf ''hello'' []]]] ! i) ([[], []] ! i) =
      Inr ([RString (Some ''\<newline>hello\<newline>'')] ! i, [[], []] ! Suc i)"
    using p by (simp del: serializeNode.simps)
  have three: "\<forall>i < length [Block ''table-head'' Map.empty [Text [Leaf ''h'' []]],
                 Block ''paragraph'' Map.empty [Text [Leaf ''hello'' []]],
                 Block ''table-row'' Map.empty [Text [Leaf ''r'' []]]].
      serializeNode sampleEncode DocumentParent
        ([Block ''table-head'' Map.empty [Text [Leaf ''h'' []]],
          Block ''paragraph'' Map.empty [Text [Leaf ''hello'' []]],
          Block ''table-row'' Map.empty [Text [Leaf ''r'' []]]] ! i)
        ([[], ''| --- '', ''| --- '', []] ! i) =
      Inr ([RString (Some ''| h ''), RString (Some ''\<newline>hello\<newline>''),
            RString (Some ''r|\<newline>| --- |\<newline>'')] ! i,
           [[], ''| --- '', ''| --- '', []] ! Suc i)"
    using p h r by (simp del: serializeNode.simps add: All_less_Suc numeral_3_eq_3)
  show ?thesis
    using serialize_joins_and_trims [OF _ _ one] serialize_joins_and_trims [OF _ _ three]
    by (simp add: trimStart_def isSpace_def del: serializeNode.simps)
qed

end
